theory Spec2Isabelle
  imports Complex_Main "HOL-Library.Sublist" "HOL-Library.Multiset"
begin

section \<open>Python floats\<close>

text \<open>
  A Python \<open>float\<close> is modelled by its value: a real number, one of the two infinities, or
  NaN. The rounding of binary64 and its overflow to an infinity are not modelled (every
  finite value is exact), and the two zeros are one value.
\<close>

datatype pyfloat = Fin real | PInf | NInf | NaN

fun fmul :: "pyfloat \<Rightarrow> pyfloat \<Rightarrow> pyfloat" where
  "fmul NaN _ = NaN"
| "fmul _ NaN = NaN"
| "fmul (Fin a) (Fin b) = Fin (a * b)"
| "fmul (Fin a) PInf = (if a = 0 then NaN else if 0 < a then PInf else NInf)"
| "fmul (Fin a) NInf = (if a = 0 then NaN else if 0 < a then NInf else PInf)"
| "fmul PInf (Fin b) = (if b = 0 then NaN else if 0 < b then PInf else NInf)"
| "fmul NInf (Fin b) = (if b = 0 then NaN else if 0 < b then NInf else PInf)"
| "fmul PInf PInf = PInf"
| "fmul NInf NInf = PInf"
| "fmul PInf NInf = NInf"
| "fmul NInf PInf = NInf"

section \<open>The builtin \<open>float(str)\<close>\<close>

text \<open>
  Strings are byte strings here; digits and spaces outside ASCII are not modelled.
\<close>

text \<open>
  The exceptions of the model. \<open>EmptyBatchError\<close> is the error kind the design names for
  an empty sector batch; no statement of the source raises it.
\<close>

datatype error = ValueError | KeyError string | IndexError | EmptyBatchError

definition is_space :: "char \<Rightarrow> bool" where
  "is_space c = (c \<in> set [CHR '' '', CHR 0x09, CHR 0x0A, CHR 0x0B, CHR 0x0C, CHR 0x0D,
                             CHR 0x1C, CHR 0x1D, CHR 0x1E, CHR 0x1F])"

definition strip :: "string \<Rightarrow> string" where
  "strip s = rev (dropWhile is_space (rev (dropWhile is_space s)))"

definition is_digit :: "char \<Rightarrow> bool" where
  "is_digit c = (c \<in> set ''0123456789'')"

definition digit_val :: "char \<Rightarrow> nat" where
  "digit_val c = of_char c - 48"

definition digits_val :: "string \<Rightarrow> nat" where
  "digits_val ds = foldl (\<lambda>a c. 10 * a + digit_val c) 0 ds"

text \<open>
  Underscores (PEP 515) may stand between two digits only; they are removed before the
  numeral is read. \<open>prev\<close> is the character before the current one.
\<close>

fun strip_underscores :: "char option \<Rightarrow> string \<Rightarrow> string option" where
  "strip_underscores prev [] = (if prev = Some CHR ''_'' then None else Some [])"
| "strip_underscores prev (c # cs) =
     (if c = CHR ''_''
      then (case prev of
              None \<Rightarrow> None
            | Some p \<Rightarrow> if is_digit p then strip_underscores (Some c) cs else None)
      else if prev = Some CHR ''_'' \<and> \<not> is_digit c then None
      else map_option ((#) c) (strip_underscores (Some c) cs))"

definition lower :: "char \<Rightarrow> char" where
  "lower c = (let n = (of_char c :: nat) in if 65 \<le> n \<and> n \<le> 90 then char_of (n + 32) else c)"

definition scale10 :: "nat \<Rightarrow> int \<Rightarrow> real" where
  "scale10 m e = (if 0 \<le> e then of_nat m * 10 ^ nat e else of_nat m / 10 ^ nat (- e))"

text \<open>The exponent part of a decimal numeral: empty, or \<open>e\<close>, an optional sign and digits.\<close>

definition parse_exponent :: "string \<Rightarrow> int option" where
  "parse_exponent s =
     (case s of
        [] \<Rightarrow> Some 0
      | c # t \<Rightarrow>
          if c = CHR ''e'' \<or> c = CHR ''E''
          then (let (neg, ds) = (case t of
                                   d # u \<Rightarrow> if d = CHR ''-'' then (True, u)
                                            else if d = CHR ''+'' then (False, u)
                                            else (False, t)
                                 | [] \<Rightarrow> (False, t))
                in if ds \<noteq> [] \<and> list_all is_digit ds
                   then Some (if neg then - int (digits_val ds) else int (digits_val ds))
                   else None)
          else None)"

text \<open>An unsigned decimal numeral: digits with an optional point, at least one digit.\<close>

definition parse_decimal :: "string \<Rightarrow> real option" where
  "parse_decimal s =
     (let ip = takeWhile is_digit s;
          r1 = dropWhile is_digit s;
          (fp, r2) = (case r1 of
                        c # t \<Rightarrow> if c = CHR ''.'' then (takeWhile is_digit t, dropWhile is_digit t)
                                 else ([], r1)
                      | [] \<Rightarrow> ([], r1))
      in if ip = [] \<and> fp = [] then None
         else map_option (\<lambda>e. scale10 (digits_val (ip @ fp)) (e - int (length fp)))
                (parse_exponent r2))"

definition parse_unsigned :: "string \<Rightarrow> pyfloat option" where
  "parse_unsigned s =
     (let l = map lower s
      in if l = ''inf'' \<or> l = ''infinity'' then Some PInf
         else if l = ''nan'' then Some NaN
         else map_option Fin (parse_decimal s))"

definition fneg :: "pyfloat \<Rightarrow> pyfloat" where
  "fneg x = (case x of Fin a \<Rightarrow> Fin (- a) | PInf \<Rightarrow> NInf | NInf \<Rightarrow> PInf | NaN \<Rightarrow> NaN)"

text \<open>
  \<open>float(s)\<close> for a string \<open>s\<close>: surrounding whitespace is dropped, then a sign and a
  numeral, \<open>inf\<close>, \<open>infinity\<close> or \<open>nan\<close> must cover the whole rest. Anything else raises
  \<open>ValueError\<close>.
\<close>

definition py_float :: "string \<Rightarrow> error + pyfloat" where
  "py_float s =
     (case strip_underscores None (strip s) of
        None \<Rightarrow> Inl ValueError
      | Some t \<Rightarrow>
          (let r = (case t of
                      c # u \<Rightarrow> if c = CHR ''-'' then map_option fneg (parse_unsigned u)
                               else if c = CHR ''+'' then parse_unsigned u
                               else parse_unsigned t
                    | [] \<Rightarrow> None)
           in case r of None \<Rightarrow> Inl ValueError | Some v \<Rightarrow> Inr v))"

section \<open>Market capitalisation strings\<close>

text \<open>The slice \<open>s[:-1]\<close> and the index \<open>s[-1]\<close>, which raises on the empty string.\<close>

definition all_but_last :: "string \<Rightarrow> string" where
  "all_but_last s = butlast s"

definition last_char :: "string \<Rightarrow> error + char" where
  "last_char s = (if s = [] then Inl IndexError else Inr (last s))"

definition multiplier :: "char \<Rightarrow> pyfloat" where
  "multiplier c =
     (if c = CHR ''T'' then Fin 1000000000000
      else if c = CHR ''B'' then Fin 1000000000
      else if c = CHR ''M'' then Fin 1000000
      else Fin 1)"

text \<open>
  \<open>SectorAnalyzer._convert_market_cap\<close>: the numeral is everything but the last character,
  the multiplier comes from the last character, and every exception gives \<open>0.0\<close>.
\<close>

definition convert_market_cap :: "string \<Rightarrow> pyfloat" where
  "convert_market_cap market_cap =
     (case py_float (all_but_last market_cap) of
        Inl _ \<Rightarrow> Fin 0
      | Inr v \<Rightarrow>
          (case last_char market_cap of
             Inl _ \<Rightarrow> Fin 0
           | Inr c \<Rightarrow> fmul v (multiplier c)))"

section \<open>Float comparison and arithmetic\<close>

text \<open>Python's \<open><\<close> on floats: every comparison with NaN is false.\<close>

fun flt :: "pyfloat \<Rightarrow> pyfloat \<Rightarrow> bool" where
  "flt NaN _ = False"
| "flt _ NaN = False"
| "flt (Fin a) (Fin b) = (a < b)"
| "flt NInf NInf = False"
| "flt NInf _ = True"
| "flt _ NInf = False"
| "flt PInf _ = False"
| "flt _ PInf = True"

text \<open>Python's \<open><=\<close> on floats.\<close>

definition fle :: "pyfloat \<Rightarrow> pyfloat \<Rightarrow> bool" where
  "fle a b = (a \<noteq> NaN \<and> b \<noteq> NaN \<and> \<not> flt b a)"

definition fabs :: "pyfloat \<Rightarrow> pyfloat" where
  "fabs x = (case x of Fin a \<Rightarrow> Fin \<bar>a\<bar> | PInf \<Rightarrow> PInf | NInf \<Rightarrow> PInf | NaN \<Rightarrow> NaN)"

fun fadd :: "pyfloat \<Rightarrow> pyfloat \<Rightarrow> pyfloat" where
  "fadd NaN _ = NaN"
| "fadd _ NaN = NaN"
| "fadd (Fin a) (Fin b) = Fin (a + b)"
| "fadd PInf NInf = NaN"
| "fadd NInf PInf = NaN"
| "fadd PInf _ = PInf"
| "fadd _ PInf = PInf"
| "fadd NInf _ = NInf"
| "fadd _ NInf = NInf"

definition fsub :: "pyfloat \<Rightarrow> pyfloat \<Rightarrow> pyfloat" where
  "fsub a b = fadd a (fneg b)"

text \<open>Division by a count; the callers divide by positive counts only.\<close>

definition fdivn :: "pyfloat \<Rightarrow> nat \<Rightarrow> pyfloat" where
  "fdivn x n = (case x of Fin a \<Rightarrow> Fin (a / of_nat n) | PInf \<Rightarrow> PInf | NInf \<Rightarrow> NInf | NaN \<Rightarrow> NaN)"

definition fsqrt :: "pyfloat \<Rightarrow> pyfloat" where
  "fsqrt x = (case x of
                Fin a \<Rightarrow> if a < 0 then NaN else Fin (sqrt a)
              | PInf \<Rightarrow> PInf
              | NInf \<Rightarrow> NaN
              | NaN \<Rightarrow> NaN)"

section \<open>Stable sorting\<close>

text \<open>
  Python's \<open>sorted\<close> and the rankings of pandas are stable sorts that compare keys with
  \<open><\<close> only. On keys that \<open><\<close> orders (no NaN among them) every such sort gives the same
  list, which the insertion sort below computes: an element goes in front of the first
  element that is not smaller than it, and the elements are inserted from the right, so
  that equal keys keep the order of the input. With \<open>reverse=True\<close> the comparison is
  flipped and equal keys keep the order of the input as well. With a NaN among the keys
  the order \<open>sorted\<close> gives depends on the runs its merge sort finds and is not modelled:
  the statements below about the order of \<open>py_sorted\<close> are about keys without NaN.
\<close>

fun insort_by :: "('a \<Rightarrow> 'a \<Rightarrow> bool) \<Rightarrow> 'a \<Rightarrow> 'a list \<Rightarrow> 'a list" where
  "insort_by lt x [] = [x]"
| "insort_by lt x (y # ys) = (if lt y x then y # insort_by lt x ys else x # y # ys)"

definition stable_sort :: "('a \<Rightarrow> 'a \<Rightarrow> bool) \<Rightarrow> 'a list \<Rightarrow> 'a list" where
  "stable_sort lt xs = foldr (insort_by lt) xs []"

definition key_lt :: "('a \<Rightarrow> pyfloat) \<Rightarrow> bool \<Rightarrow> 'a \<Rightarrow> 'a \<Rightarrow> bool" where
  "key_lt key reverse a b = (if reverse then flt (key b) (key a) else flt (key a) (key b))"

definition py_sorted :: "('a \<Rightarrow> pyfloat) \<Rightarrow> bool \<Rightarrow> 'a list \<Rightarrow> 'a list" where
  "py_sorted key reverse xs = stable_sort (key_lt key reverse) xs"

section \<open>The pandas operations the analyzers use\<close>

text \<open>
  A frame built from a list of row dictionaries has the keys of the rows as columns; built
  from the empty list it has no column at all, and reading a column by name then raises
  \<open>KeyError\<close>.
\<close>

record 'r DataFrame =
  columns :: "string list"
  rows :: "'r list"

definition new_DataFrame :: "string list \<Rightarrow> 'r list \<Rightarrow> 'r DataFrame" where
  "new_DataFrame cols rs = \<lparr>columns = (if rs = [] then [] else cols), rows = rs\<rparr>"

definition column :: "'r DataFrame \<Rightarrow> string \<Rightarrow> ('r \<Rightarrow> 'a) \<Rightarrow> error + 'a list" where
  "column df col sel =
     (if col \<in> set (columns df) then Inr (map sel (rows df)) else Inl (KeyError col))"

definition bind_err :: "error + 'a \<Rightarrow> ('a \<Rightarrow> error + 'b) \<Rightarrow> error + 'b" where
  "bind_err m f = (case m of Inl e \<Rightarrow> Inl e | Inr x \<Rightarrow> f x)"

text \<open>The reductions of a float column skip NaN.\<close>

definition dropna :: "pyfloat list \<Rightarrow> pyfloat list" where
  "dropna vs = filter (\<lambda>v. v \<noteq> NaN) vs"

definition fsum :: "pyfloat list \<Rightarrow> pyfloat" where
  "fsum vs = foldl fadd (Fin 0) vs"

definition series_sum :: "pyfloat list \<Rightarrow> pyfloat" where
  "series_sum vs = fsum (dropna vs)"

definition series_mean :: "pyfloat list \<Rightarrow> pyfloat" where
  "series_mean vs =
     (let xs = dropna vs in if xs = [] then NaN else fdivn (fsum xs) (length xs))"

text \<open>
  \<open>Series.std()\<close> is the sample standard deviation (\<open>ddof = 1\<close>): with at most one value
  that is not NaN the count does not exceed \<open>ddof\<close> and the result is NaN.
\<close>

definition series_std :: "pyfloat list \<Rightarrow> pyfloat" where
  "series_std vs =
     (let xs = dropna vs; count = length xs
      in if count \<le> 1 then NaN
         else (let avg = fdivn (fsum xs) count;
                   sqr = map (\<lambda>x. fmul (fsub avg x) (fsub avg x)) xs
               in fsqrt (fdivn (fsum sqr) (count - 1))))"

text \<open>
  The sum of an integer column is an \<open>int64\<close> and wraps around. Every single volume is
  taken to fit 64 bits.
\<close>

definition wrap64 :: "int \<Rightarrow> int" where
  "wrap64 x = (x + 2 ^ 63) mod 2 ^ 64 - 2 ^ 63"

definition series_sum_int :: "int list \<Rightarrow> int" where
  "series_sum_int vs = wrap64 (sum_list vs)"

text \<open>
  \<open>nlargest(n, col)\<close> is documented as \<open>sort_values(col, ascending=False).head(n)\<close> with
  \<open>keep='first'\<close>: the rows in descending order of the column, rows with equal values in
  the order of the frame, rows whose value is NaN last, and of these the first \<open>n\<close>
  (pandas from version 1.4 on; earlier versions dropped the NaN rows). \<open>nsmallest\<close> is the
  same in ascending order. A count below 0 selects no row, as 0 does.
\<close>

definition nlargest :: "nat \<Rightarrow> ('r \<Rightarrow> pyfloat) \<Rightarrow> 'r list \<Rightarrow> 'r list" where
  "nlargest n key rs =
     take n (stable_sort (key_lt key True) (filter (\<lambda>r. key r \<noteq> NaN) rs)
             @ filter (\<lambda>r. key r = NaN) rs)"

definition nsmallest :: "nat \<Rightarrow> ('r \<Rightarrow> pyfloat) \<Rightarrow> 'r list \<Rightarrow> 'r list" where
  "nsmallest n key rs =
     take n (stable_sort (key_lt key False) (filter (\<lambda>r. key r \<noteq> NaN) rs)
             @ filter (\<lambda>r. key r = NaN) rs)"

section \<open>Stock records\<close>

text \<open>
  The two \<open>StockData\<close> classes share eight fields; \<open>sector_analyzer.py\<close> adds \<open>sector\<close> and
  \<open>pe_ratio\<close>, \<open>stock_analyzer.py\<close> adds \<open>category\<close>. A missing number reaches the frame as
  NaN.
\<close>

record StockBase =
  symbol :: string
  name :: string
  price :: pyfloat
  change :: pyfloat
  change_percentage :: pyfloat
  volume :: int
  market_cap :: string
  timestamp :: string

record StockData = StockBase +
  sector :: string
  pe_ratio :: pyfloat

record MarketStock = StockBase +
  category :: string

definition StockData_fields :: "string list" where
  "StockData_fields = [''symbol'', ''name'', ''price'', ''change'', ''change_percentage'',
     ''volume'', ''market_cap'', ''sector'', ''pe_ratio'', ''timestamp'']"

definition MarketStock_fields :: "string list" where
  "MarketStock_fields = [''symbol'', ''name'', ''price'', ''change'', ''change_percentage'',
     ''volume'', ''market_cap'', ''timestamp'', ''category'']"

section \<open>sector\_analyzer.py\<close>

text \<open>A row of \<open>top_performers\<close> and \<open>worst_performers\<close>: the four selected columns.\<close>

datatype Projection =
  Projection (proj_symbol: string) (proj_name: string)
             (proj_change_percentage: pyfloat) (proj_volume: int)

text \<open>
  \<open>SectorData\<close>. The fields that share a name with a field of \<open>StockData\<close> carry the prefix
  \<open>sector_\<close>.
\<close>

record SectorData =
  sector_name :: string
  performance :: pyfloat
  sector_volume :: int
  sector_market_cap :: pyfloat
  top_performers :: "Projection list"
  worst_performers :: "Projection list"
  average_pe :: pyfloat
  volatility :: pyfloat
  sector_timestamp :: string

text \<open>The frame of \<open>_analyze_sector\<close> after the column \<open>market_cap_value\<close> is added.\<close>

type_synonym sector_row = "StockData \<times> pyfloat"

definition project :: "StockData \<Rightarrow> Projection" where
  "project r = Projection (symbol r) (name r) (change_percentage r) (volume r)"

definition select_records :: "sector_row DataFrame \<Rightarrow> sector_row list \<Rightarrow> error + Projection list" where
  "select_records df rs =
     (case filter (\<lambda>c. c \<notin> set (columns df)) [''symbol'', ''name'', ''change_percentage'', ''volume''] of
        [] \<Rightarrow> Inr (map (project \<circ> fst) rs)
      | c # _ \<Rightarrow> Inl (KeyError c))"

definition get_top_performers :: "sector_row DataFrame \<Rightarrow> nat \<Rightarrow> error + Projection list" where
  "get_top_performers df n =
     bind_err (column df ''change_percentage'' id)
       (\<lambda>_. select_records df (nlargest n (change_percentage \<circ> fst) (rows df)))"

definition get_worst_performers :: "sector_row DataFrame \<Rightarrow> nat \<Rightarrow> error + Projection list" where
  "get_worst_performers df n =
     bind_err (column df ''change_percentage'' id)
       (\<lambda>_. select_records df (nsmallest n (change_percentage \<circ> fst) (rows df)))"

text \<open>
  \<open>_analyze_sector\<close>; \<open>now\<close> is the result of \<open>datetime.now().isoformat()\<close>. The fields are
  computed in the order of the keyword arguments.
\<close>

definition analyze_sector :: "string \<Rightarrow> string \<Rightarrow> StockData list \<Rightarrow> error + SectorData" where
  "analyze_sector now sector_nm stocks =
     (let df0 = new_DataFrame StockData_fields stocks
      in bind_err (column df0 ''market_cap'' market_cap) (\<lambda>caps.
         let df = \<lparr>columns = columns df0 @ [''market_cap_value''],
                   rows = zip (rows df0) (map convert_market_cap caps)\<rparr>
         in bind_err (column df ''change_percentage'' (change_percentage \<circ> fst)) (\<lambda>cps.
            bind_err (column df ''volume'' (volume \<circ> fst)) (\<lambda>vols.
            bind_err (column df ''market_cap_value'' snd) (\<lambda>mcs.
            bind_err (get_top_performers df 5) (\<lambda>top.
            bind_err (get_worst_performers df 5) (\<lambda>worst.
            bind_err (column df ''pe_ratio'' (pe_ratio \<circ> fst)) (\<lambda>pes.
            bind_err (column df ''change_percentage'' (change_percentage \<circ> fst)) (\<lambda>cps2.
              Inr \<lparr>sector_name = sector_nm,
                   performance = series_mean cps,
                   sector_volume = series_sum_int vols,
                   sector_market_cap = series_sum mcs,
                   top_performers = top,
                   worst_performers = worst,
                   average_pe = series_mean pes,
                   volatility = series_std cps2,
                   sector_timestamp = now\<rparr>)))))))))"

text \<open>
  The ordering of the sectors in \<open>_prepare_analysis_content\<close> and in \<open>send_email\<close>:
  \<open>sorted(sector_data.items(), key=lambda x: x[1].performance, reverse=True)\<close>. The
  dictionary is the list of its items in iteration order.
\<close>

definition sorted_sectors :: "(string \<times> SectorData) list \<Rightarrow> (string \<times> SectorData) list" where
  "sorted_sectors items = py_sorted (\<lambda>x. performance (snd x)) True items"

section \<open>stock\_analyzer.py\<close>

text \<open>An entry of \<open>top_movers\<close>, and the values of the dictionary of a category.\<close>

datatype Mover =
  Mover (mover_symbol: string) (mover_name: string) (change_pct: pyfloat) (mover_volume: int)

datatype summary_value = IntV int | FloatV pyfloat | MoversV "Mover list"

definition mover :: "MarketStock \<Rightarrow> Mover" where
  "mover stock = Mover (symbol stock) (name stock) (change_percentage stock) (volume stock)"

definition prepare_category_data :: "MarketStock list \<Rightarrow> error + (string \<times> summary_value) list" where
  "prepare_category_data stocks =
     (if stocks = [] then Inr [(''count'', IntV 0)]
      else
        (let df = new_DataFrame MarketStock_fields stocks
         in bind_err (column df ''change_percentage'' change_percentage) (\<lambda>cps.
            bind_err (column df ''volume'' volume) (\<lambda>vols.
              Inr [(''count'', IntV (int (length stocks))),
                   (''avg_change_pct'', FloatV (series_mean cps)),
                   (''total_volume'', IntV (series_sum_int vols)),
                   (''top_movers'',
                      MoversV (map mover
                        (take 5 (py_sorted (\<lambda>x. fabs (change_percentage x)) True stocks))))]))))"

text \<open>\<open>stocks.get(key, [])\<close>.\<close>

definition dict_get :: "('k \<rightharpoonup> 'v) \<Rightarrow> 'k \<Rightarrow> 'v \<Rightarrow> 'v" where
  "dict_get d k dflt = (case d k of None \<Rightarrow> dflt | Some v \<Rightarrow> v)"

text \<open>
  The dictionary \<open>analysis_data\<close> that \<open>analyze_market_trends\<close> builds for the prompt, as the
  list of its items.
\<close>

definition analysis_data ::
  "(string \<rightharpoonup> MarketStock list) \<Rightarrow> error + (string \<times> (string \<times> summary_value) list) list" where
  "analysis_data stocks =
     bind_err (prepare_category_data (dict_get stocks ''most_active'' [])) (\<lambda>a.
     bind_err (prepare_category_data (dict_get stocks ''gainers'' [])) (\<lambda>g.
     bind_err (prepare_category_data (dict_get stocks ''losers'' [])) (\<lambda>l.
       Inr [(''most_active'', a), (''gainers'', g), (''losers'', l)])))"

section \<open>Sample data\<close>

text \<open>Records for the concrete instances below: only the fields given vary.\<close>

definition sample_stock :: "string \<Rightarrow> pyfloat \<Rightarrow> StockData" where
  "sample_stock sy cp =
     \<lparr>symbol = sy, name = sy, price = Fin 10, change = Fin 0, change_percentage = cp,
      volume = 100, market_cap = ''1.5T'', timestamp = ''2024-01-02T09:30:00'',
      sector = ''technology'', pe_ratio = Fin 20\<rparr>"

definition sample_market_stock :: "string \<Rightarrow> pyfloat \<Rightarrow> MarketStock" where
  "sample_market_stock sy cp =
     \<lparr>symbol = sy, name = sy, price = Fin 10, change = Fin 0, change_percentage = cp,
      volume = 100, market_cap = ''1.5T'', timestamp = ''2024-01-02T09:30:00'',
      category = ''gainers''\<rparr>"

definition sample_sector :: "string \<Rightarrow> pyfloat \<Rightarrow> SectorData" where
  "sample_sector nm perf =
     \<lparr>sector_name = nm, performance = perf, sector_volume = 100,
      sector_market_cap = Fin 1500000000000, top_performers = [], worst_performers = [],
      average_pe = Fin 20, volatility = Fin 1, sector_timestamp = ''2024-01-02T09:30:00''\<rparr>"



definition nan_stocks :: "StockData list" where
  "nan_stocks =
     [sample_stock ''N'' NaN, sample_stock ''A'' (Fin 1), sample_stock ''B'' (Fin 2),
      sample_stock ''C'' (Fin 3), sample_stock ''D'' (Fin 4), sample_stock ''E'' (Fin 5)]"

section \<open>Market capitalisation: properties\<close>

text \<open>
  C8: \<open>_convert_market_cap\<close> gives 1.5e12 for "1.5T", 5e11 for "500B", 2.5e8 for "250M",
  and 0.0 for "garbage" and for the empty string.
\<close>

theorem convert_market_cap_examples:
  "convert_market_cap ''1.5T'' = Fin 1500000000000
   \<and> convert_market_cap ''500B'' = Fin 500000000000
   \<and> convert_market_cap ''250M'' = Fin 250000000
   \<and> convert_market_cap ''garbage'' = Fin 0
   \<and> convert_market_cap [] = Fin 0"
  by code_simp

text \<open>
  C3: a string whose last character is no multiplier suffix should come back as its numeral,
  unscaled. The source takes the multiplier 1 for it, but has already cut the last
  character off the numeral: the plain numeric string "1234" is read as 123, and a single
  digit as the empty numeral, which gives 0.
\<close>

theorem convert_market_cap_plain_numeral:
  "convert_market_cap ''1234'' = Fin 123 \<and> convert_market_cap ''7'' = Fin 0"
  by code_simp

section \<open>Facts about the float order and the stable sort\<close>

lemma flt_irrefl: "\<not> flt a a"
  by (cases a) simp_all

lemma flt_asym: "flt a b \<Longrightarrow> \<not> flt b a"
  by (cases a; cases b) simp_all

lemma flt_negtrans: "b \<noteq> NaN \<Longrightarrow> flt a c \<Longrightarrow> flt a b \<or> flt b c"
  by (cases a; cases b; cases c) auto



lemma key_lt_irrefl: "key a = key b \<Longrightarrow> \<not> key_lt key rv a b"
  by (simp add: key_lt_def flt_irrefl)

lemma key_lt_asym: "key_lt key rv a b \<Longrightarrow> \<not> key_lt key rv b a"
  by (auto simp: key_lt_def dest: flt_asym)

lemma key_lt_negtrans:
  "key b \<noteq> NaN \<Longrightarrow> key_lt key rv a c \<Longrightarrow> key_lt key rv a b \<or> key_lt key rv b c"
  using flt_negtrans [of "key b" "key a" "key c"] flt_negtrans [of "key b" "key c" "key a"]
  by (auto simp: key_lt_def)

lemma stable_sort_Nil: "stable_sort lt [] = []"
  by (simp add: stable_sort_def)

lemma stable_sort_Cons: "stable_sort lt (x # xs) = insort_by lt x (stable_sort lt xs)"
  by (simp add: stable_sort_def)

lemma mset_insort_by: "mset (insort_by lt x ys) = add_mset x (mset ys)"
  by (induction ys) simp_all

lemma mset_stable_sort: "mset (stable_sort lt xs) = mset xs"
  by (induction xs) (simp_all add: stable_sort_Nil stable_sort_Cons mset_insort_by)

lemma set_insort_by: "set (insort_by lt x ys) = insert x (set ys)"
  using mset_insort_by [of lt x ys] by (metis set_mset_add_mset_insert set_mset_mset)

lemma set_stable_sort: "set (stable_sort lt xs) = set xs"
  using mset_stable_sort [of lt xs] by (metis set_mset_mset)

lemma length_stable_sort: "length (stable_sort lt xs) = length xs"
  using mset_stable_sort [of lt xs] by (metis size_mset)

text \<open>Stability: the elements with one key value come out in the order they went in.\<close>

lemma filter_insort_by_in:
  "P x \<Longrightarrow> (\<And>y. lt y x \<Longrightarrow> \<not> P y) \<Longrightarrow> filter P (insort_by lt x ys) = x # filter P ys"
  by (induction ys) auto

lemma filter_insort_by_out: "\<not> P x \<Longrightarrow> filter P (insort_by lt x ys) = filter P ys"
  by (induction ys) auto

lemma stable_sort_stable:
  "filter (\<lambda>x. key x = v) (stable_sort (key_lt key rv) xs) = filter (\<lambda>x. key x = v) xs"
proof (induction xs)
  case Nil
  show ?case by (simp add: stable_sort_Nil)
next
  case (Cons x xs)
  show ?case
  proof (cases "key x = v")
    case True
    have "\<And>y. key_lt key rv y x \<Longrightarrow> key y \<noteq> v"
      using True key_lt_irrefl [of key _ x rv] by auto
    then show ?thesis
      using True Cons.IH by (simp add: stable_sort_Cons filter_insort_by_in)
  next
    case False
    then show ?thesis
      using Cons.IH by (simp add: stable_sort_Cons filter_insort_by_out)
  qed
qed

text \<open>Sortedness needs keys that \<open><\<close> orders.\<close>

lemma sorted_insort_by:
  assumes "sorted_wrt (\<lambda>a b. \<not> key_lt key rv b a) ys" and "\<forall>y\<in>set ys. key y \<noteq> NaN"
  shows "sorted_wrt (\<lambda>a b. \<not> key_lt key rv b a) (insort_by (key_lt key rv) x ys)"
  using assms
proof (induction ys)
  case Nil
  show ?case by simp
next
  case (Cons y ys)
  show ?case
  proof (cases "key_lt key rv y x")
    case True
    then have "\<not> key_lt key rv x y" by (rule key_lt_asym)
    then show ?thesis
      using True Cons by (auto simp: set_insort_by)
  next
    case False
    have "\<not> key_lt key rv z x" if "z \<in> set ys" for z
    proof
      assume "key_lt key rv z x"
      moreover have "key y \<noteq> NaN" using Cons.prems by simp
      ultimately have "key_lt key rv z y \<or> key_lt key rv y x"
        by (rule key_lt_negtrans [rotated])
      then show False using False Cons.prems(1) that by auto
    qed
    then show ?thesis
      using False Cons.prems by auto
  qed
qed

lemma sorted_stable_sort:
  "\<forall>x\<in>set xs. key x \<noteq> NaN \<Longrightarrow>
   sorted_wrt (\<lambda>a b. \<not> key_lt key rv b a) (stable_sort (key_lt key rv) xs)"
  by (induction xs) (simp_all add: stable_sort_Nil stable_sort_Cons sorted_insort_by set_stable_sort)

lemma sorted_py_sorted_desc:
  assumes "\<forall>x\<in>set xs. key x \<noteq> NaN"
  shows "sorted_wrt (\<lambda>a b. fle (key b) (key a)) (py_sorted key True xs)"
proof -
  have "sorted_wrt (\<lambda>a b. \<not> key_lt key True b a) (py_sorted key True xs)"
    unfolding py_sorted_def using assms by (rule sorted_stable_sort)
  moreover have "\<forall>x\<in>set (py_sorted key True xs). key x \<noteq> NaN"
    using assms by (simp add: py_sorted_def set_stable_sort)
  ultimately show ?thesis
    by (rule_tac sorted_wrt_mono_rel [rotated]) (auto simp: key_lt_def fle_def)
qed

section \<open>Sector aggregation: properties\<close>

text \<open>
  C1 (as stated, refuted): on the empty record list \<open>_analyze_sector\<close> should fail with
  \<open>EmptyBatchError\<close>. It fails, but with another error.
\<close>

theorem analyze_sector_empty_not_EmptyBatchError:
  "analyze_sector ''2024-01-02T09:30:00'' ''technology'' [] \<noteq> Inl EmptyBatchError"
  by (simp add: analyze_sector_def new_DataFrame_def column_def bind_err_def)

text \<open>
  C1 (amended): on the empty record list \<open>_analyze_sector\<close> returns no summary; it fails
  with the \<open>KeyError\<close> of the frame without columns, raised by the first column it reads,
  \<open>market_cap\<close>.
\<close>

theorem analyze_sector_empty_KeyError:
  "analyze_sector now sector_nm [] = Inl (KeyError ''market_cap'')"
  by (simp add: analyze_sector_def new_DataFrame_def column_def bind_err_def)

text \<open>
  C2 (as stated, refuted): the volatility of a single-record sector should be 0. For the
  sample record it is NaN.
\<close>

theorem single_record_volatility_not_zero:
  "map_sum id volatility
     (analyze_sector ''2024-01-02T09:30:00'' ''technology'' [sample_stock ''AAA'' (Fin 2)])
   = Inr NaN
   \<and> map_sum id volatility
     (analyze_sector ''2024-01-02T09:30:00'' ''technology'' [sample_stock ''AAA'' (Fin 2)])
   \<noteq> Inr (Fin 0)"
  by (simp add: analyze_sector_def new_DataFrame_def column_def bind_err_def
      StockData_fields_def get_top_performers_def get_worst_performers_def
      select_records_def series_std_def dropna_def Let_def)

text \<open>
  C2 (amended): for every single-record batch \<open>_analyze_sector\<close> returns a summary, and its
  volatility is NaN, the sample standard deviation of one value.
\<close>

theorem single_record_volatility_NaN:
  "\<exists>s. analyze_sector now sector_nm [r] = Inr s \<and> volatility s = NaN"
  by (simp add: analyze_sector_def new_DataFrame_def column_def bind_err_def
      StockData_fields_def get_top_performers_def get_worst_performers_def
      select_records_def series_std_def dropna_def Let_def)

section \<open>Sector ordering: properties\<close>

text \<open>
  C4 (as stated, refuted): sectors with equal performance should come in ascending order of
  their names whatever the order of the dictionary. With B inserted before A and both at
  3.0, B stays before A.
\<close>

theorem sorted_sectors_tie_keeps_insertion_order:
  "map fst (sorted_sectors [(''B'', sample_sector ''B'' (Fin 3)),
                            (''A'', sample_sector ''A'' (Fin 3)),
                            (''C'', sample_sector ''C'' (Fin 1))]) = [''B'', ''A'', ''C'']"
  by (simp add: sorted_sectors_def py_sorted_def stable_sort_def key_lt_def sample_sector_def)

text \<open>
  C4 (amended): for every mapping whose performances are numbers, the ordering returns the
  same pairs, sorted by performance descending, and pairs with equal performance keep the
  iteration order of the mapping.
\<close>

theorem sorted_sectors_descending_stable:
  assumes "\<forall>x\<in>set items. performance (snd x) \<noteq> NaN"
  shows "mset (sorted_sectors items) = mset items
     \<and> sorted_wrt (\<lambda>a b. fle (performance (snd b)) (performance (snd a))) (sorted_sectors items)
     \<and> (\<forall>v. filter (\<lambda>x. performance (snd x) = v) (sorted_sectors items)
             = filter (\<lambda>x. performance (snd x) = v) items)"
proof -
  have "mset (sorted_sectors items) = mset items"
    by (simp add: sorted_sectors_def py_sorted_def mset_stable_sort)
  moreover have "sorted_wrt (\<lambda>a b. fle (performance (snd b)) (performance (snd a)))
                   (sorted_sectors items)"
    unfolding sorted_sectors_def using assms by (rule sorted_py_sorted_desc)
  moreover have "filter (\<lambda>x. performance (snd x) = v) (sorted_sectors items)
             = filter (\<lambda>x. performance (snd x) = v) items" for v
    by (simp add: sorted_sectors_def py_sorted_def stable_sort_stable)
  ultimately show ?thesis by blast
qed

theorem sorted_sectors_descending_stable_witness:
  "mset (sorted_sectors [(''B'', sample_sector ''B'' (Fin 3)), (''A'', sample_sector ''A'' (Fin 3))])
     = mset [(''B'', sample_sector ''B'' (Fin 3)), (''A'', sample_sector ''A'' (Fin 3))]
   \<and> filter (\<lambda>x. performance (snd x) = Fin 3)
        (sorted_sectors [(''B'', sample_sector ''B'' (Fin 3)), (''A'', sample_sector ''A'' (Fin 3))])
     = [(''B'', sample_sector ''B'' (Fin 3)), (''A'', sample_sector ''A'' (Fin 3))]
   \<and> sorted_wrt (\<lambda>a b. fle (performance (snd b)) (performance (snd a)))
        (sorted_sectors [(''B'', sample_sector ''B'' (Fin 3)), (''A'', sample_sector ''A'' (Fin 3))])"
proof -
  have h: "\<forall>x\<in>set [(''B'', sample_sector ''B'' (Fin 3)), (''A'', sample_sector ''A'' (Fin 3))].
             performance (snd x) \<noteq> NaN"
    by (simp add: sample_sector_def)
  from sorted_sectors_descending_stable [OF h] show ?thesis
    by (simp add: sample_sector_def)
qed

section \<open>Category aggregation: properties\<close>

lemma prepare_category_data_nonempty:
  "stocks \<noteq> [] \<Longrightarrow> prepare_category_data stocks =
     Inr [(''count'', IntV (int (length stocks))),
          (''avg_change_pct'', FloatV (series_mean (map change_percentage stocks))),
          (''total_volume'', IntV (series_sum_int (map volume stocks))),
          (''top_movers'', MoversV (map mover
              (take 5 (py_sorted (\<lambda>x. fabs (change_percentage x)) True stocks))))]"
  by (simp add: prepare_category_data_def new_DataFrame_def column_def bind_err_def
      MarketStock_fields_def)

lemma prepare_category_data_total: "\<exists>d. prepare_category_data stocks = Inr d"
proof (cases "stocks = []")
  case True
  then show ?thesis by (simp add: prepare_category_data_def)
next
  case False
  then show ?thesis by (simp add: prepare_category_data_nonempty)
qed

text \<open>
  C5 (as stated, refuted): for the empty record list the summary should have \<open>top_movers\<close>
  equal to the empty sequence. The dictionary returned has no key \<open>top_movers\<close>.
\<close>

theorem prepare_category_data_empty_no_top_movers:
  "map_sum id (\<lambda>d. map_of d ''top_movers'') (prepare_category_data []) = Inr None
   \<and> map_sum id (\<lambda>d. map_of d ''top_movers'') (prepare_category_data [])
       \<noteq> Inr (Some (MoversV []))"
  by (simp add: prepare_category_data_def)

text \<open>
  C5 (amended): for the empty record list \<open>_prepare_category_data\<close> raises no error and
  returns the dictionary whose only key is \<open>count\<close>, with the value 0.
\<close>

theorem prepare_category_data_empty:
  "prepare_category_data [] = Inr [(''count'', IntV 0)]"
  by (simp add: prepare_category_data_def)



text \<open>
  C10: \<open>analysis_data\<close> has exactly the categories \<open>most_active\<close>, \<open>gainers\<close>, \<open>losers\<close>, in
  this order, whatever the input mapping; it depends on no other key of the mapping, and a
  missing category gives the same result as the category with the empty list, no error.
\<close>

theorem analysis_data_three_categories:
  "(\<exists>a g l. analysis_data stocks = Inr [(''most_active'', a), (''gainers'', g), (''losers'', l)]
       \<and> prepare_category_data (dict_get stocks ''most_active'' []) = Inr a
       \<and> prepare_category_data (dict_get stocks ''gainers'' []) = Inr g
       \<and> prepare_category_data (dict_get stocks ''losers'' []) = Inr l)
   \<and> (stocks' ''most_active'' = stocks ''most_active'' \<and> stocks' ''gainers'' = stocks ''gainers''
        \<and> stocks' ''losers'' = stocks ''losers'' \<longrightarrow> analysis_data stocks' = analysis_data stocks)
   \<and> (k \<in> set [''most_active'', ''gainers'', ''losers''] \<and> stocks k = None
        \<longrightarrow> analysis_data (stocks(k \<mapsto> [])) = analysis_data stocks)"
proof (intro conjI impI)
  obtain a g l where
    "prepare_category_data (dict_get stocks ''most_active'' []) = Inr a"
    "prepare_category_data (dict_get stocks ''gainers'' []) = Inr g"
    "prepare_category_data (dict_get stocks ''losers'' []) = Inr l"
    using prepare_category_data_total by meson
  then show "\<exists>a g l. analysis_data stocks = Inr [(''most_active'', a), (''gainers'', g), (''losers'', l)]
       \<and> prepare_category_data (dict_get stocks ''most_active'' []) = Inr a
       \<and> prepare_category_data (dict_get stocks ''gainers'' []) = Inr g
       \<and> prepare_category_data (dict_get stocks ''losers'' []) = Inr l"
    by (simp add: analysis_data_def bind_err_def)
next
  assume "stocks' ''most_active'' = stocks ''most_active'' \<and> stocks' ''gainers'' = stocks ''gainers''
        \<and> stocks' ''losers'' = stocks ''losers''"
  then show "analysis_data stocks' = analysis_data stocks"
    by (simp add: analysis_data_def dict_get_def)
next
  assume "k \<in> set [''most_active'', ''gainers'', ''losers''] \<and> stocks k = None"
  then have "dict_get (stocks(k \<mapsto> [])) c [] = dict_get stocks c []" for c
    by (simp add: dict_get_def)
  then show "analysis_data (stocks(k \<mapsto> [])) = analysis_data stocks"
    by (simp add: analysis_data_def)
qed

theorem analysis_data_three_categories_witness:
  "analysis_data [''gainers'' \<mapsto> [sample_market_stock ''X'' (Fin 1)]]
     = analysis_data [''gainers'' \<mapsto> [sample_market_stock ''X'' (Fin 1)],
                      ''pre_market'' \<mapsto> [sample_market_stock ''Y'' (Fin 2)]]
   \<and> analysis_data ([''gainers'' \<mapsto> [sample_market_stock ''X'' (Fin 1)],
                      ''pre_market'' \<mapsto> [sample_market_stock ''Y'' (Fin 2)]](''losers'' \<mapsto> []))
     = analysis_data [''gainers'' \<mapsto> [sample_market_stock ''X'' (Fin 1)],
                      ''pre_market'' \<mapsto> [sample_market_stock ''Y'' (Fin 2)]]
   \<and> map_sum id (map fst) (analysis_data [''gainers'' \<mapsto> [sample_market_stock ''X'' (Fin 1)],
                      ''pre_market'' \<mapsto> [sample_market_stock ''Y'' (Fin 2)]])
     = Inr [''most_active'', ''gainers'', ''losers'']"
proof -
  let ?m = "[''gainers'' \<mapsto> [sample_market_stock ''X'' (Fin 1)],
             ''pre_market'' \<mapsto> [sample_market_stock ''Y'' (Fin 2)]]"
  let ?m' = "[''gainers'' \<mapsto> [sample_market_stock ''X'' (Fin 1)]]"
  have h1: "?m' ''most_active'' = ?m ''most_active'' \<and> ?m' ''gainers'' = ?m ''gainers''
        \<and> ?m' ''losers'' = ?m ''losers''"
    by simp
  have h2: "''losers'' \<in> set [''most_active'', ''gainers'', ''losers''] \<and> ?m ''losers'' = None"
    by simp
  from analysis_data_three_categories [of ?m ?m' "''losers''"] h1 h2 show ?thesis
    by auto
qed

section \<open>Rankings of a sector: properties\<close>

lemma map_insort_by:
  "(\<And>a b. lt' (f a) (f b) = lt a b) \<Longrightarrow>
   map f (insort_by lt x ys) = insort_by lt' (f x) (map f ys)"
  by (induction ys) simp_all

lemma map_stable_sort:
  assumes "\<And>a b. lt' (f a) (f b) = lt a b"
  shows "map f (stable_sort lt xs) = stable_sort lt' (map f xs)"
proof (induction xs)
  case Nil
  show ?case by (simp add: stable_sort_Nil)
next
  case (Cons x xs)
  have "map f (insort_by lt x ys) = insort_by lt' (f x) (map f ys)" for ys
    using assms by (rule map_insort_by)
  then show ?case using Cons.IH by (simp add: stable_sort_Cons)
qed

lemma map_ranked:
  "map f (stable_sort (key_lt (key \<circ> f) rv) (filter (\<lambda>r. (key \<circ> f) r \<noteq> NaN) rs)
          @ filter (\<lambda>r. (key \<circ> f) r = NaN) rs)
   = stable_sort (key_lt key rv) (filter (\<lambda>r. key r \<noteq> NaN) (map f rs))
     @ filter (\<lambda>r. key r = NaN) (map f rs)"
proof -
  have "map f (stable_sort (key_lt (key \<circ> f) rv) xs) = stable_sort (key_lt key rv) (map f xs)" for xs
    by (rule map_stable_sort) (simp add: key_lt_def)
  then show ?thesis
    by (simp add: filter_map comp_def)
qed

lemma map_nlargest: "map f (nlargest n (key \<circ> f) rs) = nlargest n key (map f rs)"
  unfolding nlargest_def take_map [symmetric] by (simp only: map_ranked)

lemma map_nsmallest: "map f (nsmallest n (key \<circ> f) rs) = nsmallest n key (map f rs)"
  unfolding nsmallest_def take_map [symmetric] by (simp only: map_ranked)

lemma select_records_ok:
  "set [''symbol'', ''name'', ''change_percentage'', ''volume''] \<subseteq> set (columns df) \<Longrightarrow>
   select_records df rs = Inr (map (project \<circ> fst) rs)"
  by (simp add: select_records_def)

lemma get_top_performers_ok:
  "set [''symbol'', ''name'', ''change_percentage'', ''volume''] \<subseteq> set (columns df) \<Longrightarrow>
   get_top_performers df n = Inr (map (project \<circ> fst) (nlargest n (change_percentage \<circ> fst) (rows df)))"
  by (simp add: get_top_performers_def column_def bind_err_def select_records_ok)

lemma get_worst_performers_ok:
  "set [''symbol'', ''name'', ''change_percentage'', ''volume''] \<subseteq> set (columns df) \<Longrightarrow>
   get_worst_performers df n = Inr (map (project \<circ> fst) (nsmallest n (change_percentage \<circ> fst) (rows df)))"
  by (simp add: get_worst_performers_def column_def bind_err_def select_records_ok)

lemma analyze_sector_nonempty:
  assumes "stocks \<noteq> []"
  shows "analyze_sector now nm stocks =
     Inr \<lparr>sector_name = nm,
          performance = series_mean (map change_percentage stocks),
          sector_volume = series_sum_int (map volume stocks),
          sector_market_cap = series_sum (map (convert_market_cap \<circ> market_cap) stocks),
          top_performers = map project (nlargest 5 change_percentage stocks),
          worst_performers = map project (nsmallest 5 change_percentage stocks),
          average_pe = series_mean (map pe_ratio stocks),
          volatility = series_std (map change_percentage stocks),
          sector_timestamp = now\<rparr>"
proof -
  let ?rows = "zip stocks (map convert_market_cap (map market_cap stocks))"
  let ?df = "\<lparr>columns = StockData_fields @ [''market_cap_value''], rows = ?rows\<rparr>"
  have fst_rows: "map fst ?rows = stocks" and snd_rows: "map snd ?rows = map (convert_market_cap \<circ> market_cap) stocks"
    by (simp_all add: map_fst_zip map_snd_zip)
  have cols: "set [''symbol'', ''name'', ''change_percentage'', ''volume''] \<subseteq> set (columns ?df)"
    by (simp add: StockData_fields_def)
  have top: "get_top_performers ?df 5 = Inr (map project (nlargest 5 change_percentage stocks))"
    using get_top_performers_ok [OF cols, of 5] map_nlargest [of fst 5 change_percentage ?rows]
    by (simp only: fst_rows map_map [symmetric] DataFrame.simps)
  have worst: "get_worst_performers ?df 5 = Inr (map project (nsmallest 5 change_percentage stocks))"
    using get_worst_performers_ok [OF cols, of 5] map_nsmallest [of fst 5 change_percentage ?rows]
    by (simp only: fst_rows map_map [symmetric] DataFrame.simps)
  have c1: "map (f \<circ> fst) ?rows = map f stocks" for f :: "StockData \<Rightarrow> 'b"
    using fst_rows by (metis map_map)
  show ?thesis
    using assms top worst
    by (simp add: analyze_sector_def new_DataFrame_def column_def bind_err_def c1 snd_rows
        StockData_fields_def del: map_map)
qed












text \<open>
  C9 (as stated, refuted): a record whose \<open>change_percentage\<close> is NaN should be in neither
  ranking. In the batch of this one record it is in both.
\<close>

theorem nan_record_in_both_rankings:
  "map_sum id (\<lambda>s. (map proj_symbol (top_performers s), map proj_symbol (worst_performers s)))
     (analyze_sector ''2024-01-02T09:30:00'' ''technology'' [sample_stock ''AAA'' NaN])
   = Inr ([''AAA''], [''AAA''])"
  by (simp add: analyze_sector_nonempty nlargest_def nsmallest_def stable_sort_def sample_stock_def project_def)

lemma filter_nan_ranked:
  "filter (\<lambda>x. key x = NaN) (take n (stable_sort lt (filter (\<lambda>r. key r \<noteq> NaN) rs) @ filter (\<lambda>r. key r = NaN) rs))
   = take (n - length (filter (\<lambda>r. key r \<noteq> NaN) rs)) (filter (\<lambda>r. key r = NaN) rs)"
proof -
  have "filter (\<lambda>x. key x = NaN) (take n (stable_sort lt (filter (\<lambda>r. key r \<noteq> NaN) rs))) = []"
    by (auto simp: filter_empty_conv set_stable_sort dest: in_set_takeD)
  moreover have "filter (\<lambda>x. key x = NaN) (take m (filter (\<lambda>r. key r = NaN) rs))
      = take m (filter (\<lambda>r. key r = NaN) rs)" for m
    by (rule filter_True) (auto dest: in_set_takeD)
  ultimately show ?thesis
    by (simp add: length_stable_sort)
qed

lemma filter_notnan_ranked:
  "filter (\<lambda>x. key x \<noteq> NaN) (take n (stable_sort lt (filter (\<lambda>r. key r \<noteq> NaN) rs) @ filter (\<lambda>r. key r = NaN) rs))
   = take n (stable_sort lt (filter (\<lambda>r. key r \<noteq> NaN) rs))"
proof -
  have "filter (\<lambda>x. key x \<noteq> NaN) (take n (stable_sort lt (filter (\<lambda>r. key r \<noteq> NaN) rs)))
      = take n (stable_sort lt (filter (\<lambda>r. key r \<noteq> NaN) rs))"
    by (rule filter_True) (auto simp: set_stable_sort dest: in_set_takeD)
  moreover have "filter (\<lambda>x. key x \<noteq> NaN) (take m (filter (\<lambda>r. key r = NaN) rs)) = []" for m
    by (auto simp: filter_empty_conv dest: in_set_takeD)
  ultimately show ?thesis
    by simp
qed

lemma nan_last_ranked:
  "filter (\<lambda>x. key x \<noteq> NaN) (take n (stable_sort lt (filter (\<lambda>r. key r \<noteq> NaN) rs) @ filter (\<lambda>r. key r = NaN) rs))
   @ filter (\<lambda>x. key x = NaN) (take n (stable_sort lt (filter (\<lambda>r. key r \<noteq> NaN) rs) @ filter (\<lambda>r. key r = NaN) rs))
   = take n (stable_sort lt (filter (\<lambda>r. key r \<noteq> NaN) rs) @ filter (\<lambda>r. key r = NaN) rs)"
  unfolding filter_nan_ranked filter_notnan_ranked by (simp add: length_stable_sort)

lemma filter_project_nan:
  "filter (\<lambda>p. proj_change_percentage p = NaN) (map project xs)
   = map project (filter (\<lambda>r. change_percentage r = NaN) xs)"
  "filter (\<lambda>p. proj_change_percentage p \<noteq> NaN) (map project xs)
   = map project (filter (\<lambda>r. change_percentage r \<noteq> NaN) xs)"
  by (simp_all add: filter_map comp_def project_def)

text \<open>
  C9 (amended): in both rankings of a non-empty batch the records whose \<open>change_percentage\<close>
  is NaN come after all others; they are the first \<open>5 - k\<close> of them in input order, where
  \<open>k\<close> is the number of records with a number. With five or more such records no NaN record
  is in either ranking.
\<close>

theorem nan_records_rank_last:
  assumes "stocks \<noteq> []"
  shows "\<exists>s. analyze_sector now sector_nm stocks = Inr s
     \<and> filter (\<lambda>p. proj_change_percentage p = NaN) (top_performers s)
         = map project (take (5 - length (filter (\<lambda>r. change_percentage r \<noteq> NaN) stocks))
                             (filter (\<lambda>r. change_percentage r = NaN) stocks))
     \<and> filter (\<lambda>p. proj_change_percentage p = NaN) (worst_performers s)
         = map project (take (5 - length (filter (\<lambda>r. change_percentage r \<noteq> NaN) stocks))
                             (filter (\<lambda>r. change_percentage r = NaN) stocks))
     \<and> top_performers s = filter (\<lambda>p. proj_change_percentage p \<noteq> NaN) (top_performers s)
                         @ filter (\<lambda>p. proj_change_percentage p = NaN) (top_performers s)
     \<and> worst_performers s = filter (\<lambda>p. proj_change_percentage p \<noteq> NaN) (worst_performers s)
                         @ filter (\<lambda>p. proj_change_percentage p = NaN) (worst_performers s)
     \<and> (5 \<le> length (filter (\<lambda>r. change_percentage r \<noteq> NaN) stocks) \<longrightarrow>
          (\<forall>p\<in>set (top_performers s) \<union> set (worst_performers s). proj_change_percentage p \<noteq> NaN))"
proof -
  let ?k = "length (filter (\<lambda>r. change_percentage r \<noteq> NaN) stocks)"
  let ?nans = "filter (\<lambda>r. change_percentage r = NaN) stocks"
  let ?top = "map project (nlargest 5 change_percentage stocks)"
  let ?worst = "map project (nsmallest 5 change_percentage stocks)"
  have t1: "filter (\<lambda>p. proj_change_percentage p = NaN) ?top = map project (take (5 - ?k) ?nans)"
    by (simp only: filter_project_nan nlargest_def filter_nan_ranked)
  have w1: "filter (\<lambda>p. proj_change_percentage p = NaN) ?worst = map project (take (5 - ?k) ?nans)"
    by (simp only: filter_project_nan nsmallest_def filter_nan_ranked)
  have t2: "?top = filter (\<lambda>p. proj_change_percentage p \<noteq> NaN) ?top
                 @ filter (\<lambda>p. proj_change_percentage p = NaN) ?top"
    unfolding filter_project_nan nlargest_def map_append [symmetric]
    by (simp only: nan_last_ranked)
  have w2: "?worst = filter (\<lambda>p. proj_change_percentage p \<noteq> NaN) ?worst
                 @ filter (\<lambda>p. proj_change_percentage p = NaN) ?worst"
    unfolding filter_project_nan nsmallest_def map_append [symmetric]
    by (simp only: nan_last_ranked)
  have 3: "\<forall>p\<in>set ?top \<union> set ?worst. proj_change_percentage p \<noteq> NaN" if "5 \<le> ?k"
  proof -
    have "filter (\<lambda>p. proj_change_percentage p = NaN) ?top = []"
      and "filter (\<lambda>p. proj_change_percentage p = NaN) ?worst = []"
      using that by (simp_all only: t1 w1) simp_all
    then show ?thesis
      unfolding filter_empty_conv by blast
  qed
  let ?s = "\<lparr>sector_name = sector_nm,
          performance = series_mean (map change_percentage stocks),
          sector_volume = series_sum_int (map volume stocks),
          sector_market_cap = series_sum (map (convert_market_cap \<circ> market_cap) stocks),
          top_performers = ?top, worst_performers = ?worst,
          average_pe = series_mean (map pe_ratio stocks),
          volatility = series_std (map change_percentage stocks),
          sector_timestamp = now\<rparr>"
  have eq: "analyze_sector now sector_nm stocks = Inr ?s"
    using assms by (rule analyze_sector_nonempty)
  have sel: "top_performers ?s = ?top" "worst_performers ?s = ?worst"
    by simp_all
  show ?thesis
    by (rule exI [of _ ?s], unfold sel, intro conjI impI) (rule eq t1 w1 t2 w2 | erule 3)+
qed

theorem nan_records_rank_last_witness:
  "\<exists>s. analyze_sector ''2024-01-02T09:30:00'' ''technology'' nan_stocks = Inr s
     \<and> filter (\<lambda>p. proj_change_percentage p = NaN) (top_performers s) = []
     \<and> list_all (\<lambda>p. proj_change_percentage p \<noteq> NaN) (top_performers s @ worst_performers s)"
proof -
  have ne: "nan_stocks \<noteq> []"
    by (simp add: nan_stocks_def)
  have k: "5 \<le> length (filter (\<lambda>r. change_percentage r \<noteq> NaN) nan_stocks)"
    by (simp add: nan_stocks_def sample_stock_def)
  from nan_records_rank_last [OF ne, of "''2024-01-02T09:30:00''" "''technology''"] k show ?thesis
    by (auto simp: list_all_iff)
qed

end
